theory Spec2Isabelle
  imports Complex_Main "HOL-Library.Multiset"
begin

section \<open>Pagination conversion of the backtest service (webapp)\<close>

text \<open>
  \<^verbatim>\<open>src/webapp/src/services/backtestService.ts\<close>: both \<^verbatim>\<open>getBacktests\<close> and
  \<^verbatim>\<open>getBacktestTrades\<close> turn the caller's \<^verbatim>\<open>{limit, offset}\<close> into the
  \<^verbatim>\<open>{page, page_size}\<close> query parameters of the HTTP request:
  \<^verbatim>\<open>
    const page = params?.offset
      ? Math.floor(params.offset / (params.limit || 20)) + 1
      : 1
    const page_size = params?.limit || 20
  \<close>
  A JavaScript \<^verbatim>\<open>number\<close> is modelled as a real (NaN and the infinities are left out);
  an absent (\<^verbatim>\<open>undefined\<close>) property is \<open>None\<close>, and the optional \<^verbatim>\<open>params\<close>
  object itself is an option.
\<close>

record list_params =
  limit :: "real option"
  offset :: "real option"
  status :: "string option"
  market :: "string option"

record page_query =
  page :: int
  page_size :: real
  q_status :: "string option"
  q_market :: "string option"

text \<open>\<^verbatim>\<open>params?.limit\<close>, \<^verbatim>\<open>params?.offset\<close>: optional chaining.\<close>

definition opt_limit :: "list_params option \<Rightarrow> real option" where
  "opt_limit p = (case p of None \<Rightarrow> None | Some q \<Rightarrow> limit q)"

definition opt_offset :: "list_params option \<Rightarrow> real option" where
  "opt_offset p = (case p of None \<Rightarrow> None | Some q \<Rightarrow> offset q)"

text \<open>Truthiness of an optional number: \<^verbatim>\<open>undefined\<close> and \<^verbatim>\<open>0\<close> are falsy.\<close>

definition truthy :: "real option \<Rightarrow> bool" where
  "truthy v = (case v of None \<Rightarrow> False | Some x \<Rightarrow> x \<noteq> 0)"

text \<open>\<^verbatim>\<open>v || d\<close> on an optional number.\<close>

definition or_default :: "real option \<Rightarrow> real \<Rightarrow> real" where
  "or_default v d = (case v of None \<Rightarrow> d | Some x \<Rightarrow> if x = 0 then d else x)"

definition to_page :: "list_params option \<Rightarrow> int" where
  "to_page p =
     (if truthy (opt_offset p)
      then \<lfloor>the (opt_offset p) / or_default (opt_limit p) 20\<rfloor> + 1
      else 1)"

definition to_page_size :: "list_params option \<Rightarrow> real" where
  "to_page_size p = or_default (opt_limit p) 20"

text \<open>The \<^verbatim>\<open>params\<close> object handed to \<^verbatim>\<open>backtestingApi.get\<close> by each method.\<close>

definition getBacktests :: "list_params option \<Rightarrow> page_query" where
  "getBacktests p =
     \<lparr>page = to_page p, page_size = to_page_size p,
      q_status = (case p of None \<Rightarrow> None | Some q \<Rightarrow> status q),
      q_market = (case p of None \<Rightarrow> None | Some q \<Rightarrow> market q)\<rparr>"

definition getBacktestTrades :: "string \<Rightarrow> list_params option \<Rightarrow> page_query" where
  "getBacktestTrades backtestId p =
     \<lparr>page = to_page p, page_size = to_page_size p, q_status = None, q_market = None\<rparr>"

text \<open>A call with the two paging parameters only.\<close>

definition paging :: "real option \<Rightarrow> real option \<Rightarrow> list_params option" where
  "paging l off = Some \<lparr>limit = l, offset = off, status = None, market = None\<rparr>"

lemma opt_paging [simp]: "opt_limit (paging l off) = l" "opt_offset (paging l off) = off"
  by (simp_all add: paging_def opt_limit_def opt_offset_def)

lemma to_page_size_eq:
  "to_page_size p = (case opt_limit p of None \<Rightarrow> 20 | Some x \<Rightarrow> if x = 0 then 20 else x)"
  by (simp add: to_page_size_def or_default_def)

lemma to_page_eq:
  "to_page p =
     (case opt_offset p of None \<Rightarrow> 1
      | Some x \<Rightarrow> if x = 0 then 1 else \<lfloor>x / to_page_size p\<rfloor> + 1)"
  by (simp add: to_page_def to_page_size_def truthy_def split: option.splits)

lemma window_bounds:
  fixes x s :: real
  assumes "0 < s"
  shows "of_int \<lfloor>x / s\<rfloor> * s \<le> x \<and> x < (of_int \<lfloor>x / s\<rfloor> + 1) * s"
proof -
  have "of_int \<lfloor>x / s\<rfloor> \<le> x / s" by (rule of_int_floor_le)
  then have a: "of_int \<lfloor>x / s\<rfloor> * s \<le> x"
    by (simp add: pos_le_divide_eq [OF assms])
  have "x / s < of_int \<lfloor>x / s\<rfloor> + 1" by linarith
  then have "x / s * s < (of_int \<lfloor>x / s\<rfloor> + 1) * s"
    using assms by (rule mult_strict_right_mono)
  then have b: "x < (of_int \<lfloor>x / s\<rfloor> + 1) * s"
    using assms by simp
  from a b show ?thesis by simp
qed

lemma window_exact:
  fixes x s :: real
  assumes "0 < s"
  shows "of_int \<lfloor>x / s\<rfloor> * s = x \<longleftrightarrow> (\<exists>k::int. x = of_int k * s)"
proof
  assume "of_int \<lfloor>x / s\<rfloor> * s = x"
  then show "\<exists>k::int. x = of_int k * s" by (intro exI [of _ "\<lfloor>x / s\<rfloor>"]) simp
next
  assume "\<exists>k::int. x = of_int k * s"
  then obtain k :: int where k: "x = of_int k * s" ..
  with assms have "x / s = of_int k" by simp
  then have "\<lfloor>x / s\<rfloor> = k" by simp
  with k show "of_int \<lfloor>x / s\<rfloor> * s = x" by simp
qed

text \<open>
  Claim C9 (as amended). For every call of \<^verbatim>\<open>getBacktests\<close> or \<^verbatim>\<open>getBacktestTrades\<close>,
  with \<open>limit\<close> and \<open>offset\<close> the values of \<^verbatim>\<open>params?.limit\<close> and \<^verbatim>\<open>params?.offset\<close>: the
  request carries \<open>page_size = limit\<close>, with 20 taken when the limit is absent or is 0
  (both are falsy for \<^verbatim>\<open>||\<close>); \<open>page = 1\<close> when the offset is absent or 0, and
  \<open>page = floor (offset / page_size) + 1\<close> otherwise; both methods convert alike. For a
  positive page size the window start \<open>(page - 1) * page_size\<close> is at most the offset and
  less than one page below it, and it equals the offset exactly when the offset is a
  whole multiple of the page size: any other offset is rounded down to the enclosing
  page boundary.
\<close>

theorem paging_conversion:
  fixes p :: "list_params option"
  defines "q \<equiv> getBacktests p"
  shows "page_size q
           = (case opt_limit p of None \<Rightarrow> 20 | Some x \<Rightarrow> if x = 0 then 20 else x)
    \<and> page q = (case opt_offset p of None \<Rightarrow> 1
                   | Some x \<Rightarrow> if x = 0 then 1 else \<lfloor>x / page_size q\<rfloor> + 1)
    \<and> page (getBacktestTrades bid p) = page q
    \<and> page_size (getBacktestTrades bid p) = page_size q
    \<and> (\<forall>x. opt_offset p = Some x \<and> x \<noteq> 0 \<and> 0 < page_size q \<longrightarrow>
           (of_int (page q) - 1) * page_size q \<le> x
         \<and> x < of_int (page q) * page_size q
         \<and> ((of_int (page q) - 1) * page_size q = x
              \<longleftrightarrow> (\<exists>k::int. x = of_int k * page_size q)))"
proof -
  have ps: "page_size q
      = (case opt_limit p of None \<Rightarrow> 20 | Some x \<Rightarrow> if x = 0 then 20 else x)"
    using to_page_size_eq [of p] by (simp add: q_def getBacktests_def)
  have pg: "page q = (case opt_offset p of None \<Rightarrow> 1
                   | Some x \<Rightarrow> if x = 0 then 1 else \<lfloor>x / page_size q\<rfloor> + 1)"
    using to_page_eq [of p] by (simp add: q_def getBacktests_def split: option.splits)
  have t1: "page (getBacktestTrades bid p) = page q"
    by (simp add: q_def getBacktests_def getBacktestTrades_def)
  have t2: "page_size (getBacktestTrades bid p) = page_size q"
    by (simp add: q_def getBacktests_def getBacktestTrades_def)
  have w: "(of_int (page q) - 1) * page_size q \<le> x
         \<and> x < of_int (page q) * page_size q
         \<and> ((of_int (page q) - 1) * page_size q = x
              \<longleftrightarrow> (\<exists>k::int. x = of_int k * page_size q))"
    if off: "opt_offset p = Some x" and x: "x \<noteq> 0" and s: "0 < page_size q" for x
  proof -
    from pg off x have p: "of_int (page q) = of_int \<lfloor>x / page_size q\<rfloor> + (1::real)"
      by simp
    from window_bounds [OF s, of x] window_exact [OF s, of x] p
    show ?thesis by simp
  qed
  from ps pg t1 t2 w show ?thesis by blast
qed

text \<open>
  The conversion at \<open>limit = 20\<close>, \<open>offset = 45\<close>: page 3 of size 20, whose window starts
  at 40, below the requested offset.
\<close>

theorem paging_conversion_witness:
  "page (getBacktests (paging (Some 20) (Some 45))) = 3
   \<and> page_size (getBacktests (paging (Some 20) (Some 45))) = 20
   \<and> (of_int (page (getBacktests (paging (Some 20) (Some 45)))) - 1)
        * page_size (getBacktests (paging (Some 20) (Some 45))) \<le> (45::real)
   \<and> (45::real) < of_int (page (getBacktests (paging (Some 20) (Some 45))))
        * page_size (getBacktests (paging (Some 20) (Some 45)))"
proof -
  note c = paging_conversion [where p = "paging (Some 20) (Some 45)"]
  have ps: "page_size (getBacktests (paging (Some 20) (Some 45))) = 20"
    using c by simp
  have pg: "page (getBacktests (paging (Some 20) (Some 45))) = 3"
    using c ps by simp
  from c ps pg show ?thesis by simp
qed

text \<open>
  The claim as stated fails for \<open>limit = 0\<close>: the request does not carry
  \<open>page_size = limit\<close> but the default 20, and the page is computed with 20.
\<close>

theorem paging_limit_zero_counterexample:
  "opt_limit (paging (Some 0) (Some 40)) = Some 0
   \<and> page_size (getBacktests (paging (Some 0) (Some 40))) \<noteq> 0
   \<and> page_size (getBacktests (paging (Some 0) (Some 40))) = 20
   \<and> page (getBacktests (paging (Some 0) (Some 40))) = 3"
  by (simp add: getBacktests_def to_page_eq to_page_size_eq)

section \<open>The candlestick series of the chart component (webapp)\<close>

text \<open>
  \<^verbatim>\<open>CandlestickChart\<close> (in \<^verbatim>\<open>src/webapp/src/components/BacktestTaskList/BacktestTaskList.tsx\<close>)
  prepares the fetched klines for the chart library:
  \<^verbatim>\<open>
    (data || [])
      .filter(k => k.open_time && k.open_price != null && k.high_price != null &&
                   k.low_price != null && k.close_price != null)
      .sort((a, b) => a.open_time - b.open_time)
      .map(k => ({ time: Math.floor(k.open_time / 1000), open: Number(k.open_price),
                   high: Number(k.high_price), low: Number(k.low_price),
                   close: Number(k.close_price) }))
  \<close>
  The fields the filter tests are options here (\<open>None\<close> for \<^verbatim>\<open>null\<close> or \<^verbatim>\<open>undefined\<close>),
  since the code guards against their absence at run time. \<^verbatim>\<open>Array.prototype.sort\<close> is
  stable, as is \<open>sort_key\<close>; \<^verbatim>\<open>Number\<close> of a number is that number.
\<close>

record Kline =
  symbol :: string
  interval :: string
  open_time :: "real option"
  close_time :: real
  open_price :: "real option"
  high_price :: "real option"
  low_price :: "real option"
  close_price :: "real option"
  volume :: real
  source :: string

record CandlestickData =
  time :: int
  open' :: real
  high :: real
  low :: real
  close :: real

text \<open>The filter's predicate; \<^verbatim>\<open>k.open_time &&\<close> is a truthiness test.\<close>

definition valid_kline :: "Kline \<Rightarrow> bool" where
  "valid_kline k \<longleftrightarrow>
     truthy (open_time k) \<and> open_price k \<noteq> None \<and> high_price k \<noteq> None
     \<and> low_price k \<noteq> None \<and> close_price k \<noteq> None"

text \<open>The comparator \<^verbatim>\<open>a.open_time - b.open_time\<close> orders by this key.\<close>

definition time_key :: "Kline \<Rightarrow> real" where
  "time_key k = the (open_time k)"

definition to_candle :: "Kline \<Rightarrow> CandlestickData" where
  "to_candle k =
     \<lparr>time = \<lfloor>the (open_time k) / 1000\<rfloor>,
      open' = the (open_price k), high = the (high_price k),
      low = the (low_price k), close = the (close_price k)\<rparr>"

definition candlestickData :: "Kline list \<Rightarrow> CandlestickData list" where
  "candlestickData d = map to_candle (sort_key time_key (filter valid_kline d))"

text \<open>A BTCUSDT one-hour kline with the given open time and one price for all four fields.\<close>

definition kl :: "real option \<Rightarrow> real option \<Rightarrow> Kline" where
  "kl t p = \<lparr>symbol = ''BTCUSDT'', interval = ''1h'', open_time = t, close_time = 0,
     open_price = p, high_price = p, low_price = p, close_price = p, volume = 1,
     source = ''binance''\<rparr>"

lemmas candle_defs =
  candlestickData_def kl_def valid_kline_def truthy_def to_candle_def time_key_def

lemma valid_kline_iff:
  "valid_kline k \<longleftrightarrow>
     (\<exists>t a b c d. open_time k = Some t \<and> t \<noteq> 0 \<and> open_price k = Some a
        \<and> high_price k = Some b \<and> low_price k = Some c \<and> close_price k = Some d)"
  by (auto simp: valid_kline_def truthy_def split: option.splits)

lemma time_mono: "time_key a \<le> time_key b \<Longrightarrow> time (to_candle a) \<le> time (to_candle b)"
  by (simp add: to_candle_def time_key_def floor_mono divide_right_mono)

lemma sorted_times: "sorted (map time (candlestickData d))"
proof -
  have "sorted (map time_key (sort_key time_key (filter valid_kline d)))"
    by (rule sorted_sort_key)
  then have "sorted_wrt (\<lambda>a b. time_key a \<le> time_key b)
       (sort_key time_key (filter valid_kline d))"
    by (simp add: sorted_wrt_map)
  then have "sorted_wrt (\<lambda>a b. time (to_candle a) \<le> time (to_candle b))
       (sort_key time_key (filter valid_kline d))"
    by (rule sorted_wrt_mono_rel [rotated]) (simp add: time_mono)
  then show ?thesis
    by (simp add: candlestickData_def sorted_wrt_map comp_def)
qed

lemma mset_candles:
  "mset (candlestickData d) = image_mset to_candle (filter_mset valid_kline (mset d))"
  by (simp add: candlestickData_def)

lemma candles_from_valid:
  "c \<in> set (candlestickData d) \<Longrightarrow> \<exists>k. k \<in> set d \<and> valid_kline k \<and> c = to_candle k"
  by (auto simp: candlestickData_def)

lemma strict_if_distinct:
  "distinct (map time (candlestickData d)) \<Longrightarrow> sorted_wrt (<) (map time (candlestickData d))"
  using sorted_times [of d] by (simp add: strict_sorted_iff)

lemma kept_if_sorted:
  "sorted (map time_key (filter valid_kline d)) \<Longrightarrow>
   candlestickData d = map to_candle (filter valid_kline d)"
  by (simp add: candlestickData_def sort_key_id_if_sorted)

text \<open>
  Claim C10 (as amended). The series handed to the chart library is the fetched klines
  with every entry removed whose \<open>open_time\<close> is absent or 0 or one of whose four prices
  is null, stably sorted in ascending order of \<open>open_time\<close>, and mapped to
  \<open>{time = floor (open_time / 1000), open, high, low, close}\<close>: it holds exactly the
  candles of the retained klines (as a multiset), every candle comes from a kline whose
  prices are all present, and the times ascend weakly whatever the order of the input.
  They ascend strictly exactly when no two retained klines fall into the same second.
\<close>

theorem candlestick_series:
  "candlestickData d = map to_candle (sort_key time_key (filter valid_kline d))
   \<and> (\<forall>k. valid_kline k \<longleftrightarrow>
         (\<exists>t a b c e. open_time k = Some t \<and> t \<noteq> 0 \<and> open_price k = Some a
            \<and> high_price k = Some b \<and> low_price k = Some c \<and> close_price k = Some e))
   \<and> mset (candlestickData d) = image_mset to_candle (filter_mset valid_kline (mset d))
   \<and> (\<forall>c \<in> set (candlestickData d). \<exists>k. k \<in> set d \<and> valid_kline k \<and> c = to_candle k)
   \<and> sorted (map time (candlestickData d))
   \<and> (sorted_wrt (<) (map time (candlestickData d))
        \<longleftrightarrow> distinct (map time (candlestickData d)))"
proof -
  have "sorted_wrt (<) (map time (candlestickData d))
        \<longleftrightarrow> distinct (map time (candlestickData d))"
    using sorted_times [of d] by (auto simp: strict_sorted_iff)
  moreover have "\<forall>k. valid_kline k \<longleftrightarrow>
         (\<exists>t a b c e. open_time k = Some t \<and> t \<noteq> 0 \<and> open_price k = Some a
            \<and> high_price k = Some b \<and> low_price k = Some c \<and> close_price k = Some e)"
    using valid_kline_iff by blast
  moreover have "\<forall>c \<in> set (candlestickData d). \<exists>k. k \<in> set d \<and> valid_kline k \<and> c = to_candle k"
    using candles_from_valid [of _ d] by blast
  moreover have "candlestickData d = map to_candle (sort_key time_key (filter valid_kline d))"
    by (simp add: candlestickData_def)
  ultimately show ?thesis
    using mset_candles [of d] sorted_times [of d] by blast
qed

text \<open>
  Out-of-order input with a null price, a missing open time and a zero open time: the
  two invalid entries and the zero-time entry are dropped, the rest is put in order.
\<close>

theorem candlestick_series_witness:
  "candlestickData [kl (Some 7200000) (Some 3), kl (Some 3600000) None, kl None (Some 1),
      kl (Some 0) (Some 1), kl (Some 3600500) (Some 2)]
     = [\<lparr>time = 3600, open' = 2, high = 2, low = 2, close = 2\<rparr>,
        \<lparr>time = 7200, open' = 3, high = 3, low = 3, close = 3\<rparr>]
   \<and> sorted (map time (candlestickData [kl (Some 7200000) (Some 3), kl (Some 3600000) None,
      kl None (Some 1), kl (Some 0) (Some 1), kl (Some 3600500) (Some 2)]))
   \<and> sorted_wrt (<) (map time (candlestickData [kl (Some 7200000) (Some 3),
      kl (Some 3600000) None, kl None (Some 1), kl (Some 0) (Some 1),
      kl (Some 3600500) (Some 2)]))"
proof -
  let ?d = "[kl (Some 7200000) (Some 3), kl (Some 3600000) None, kl None (Some 1),
      kl (Some 0) (Some 1), kl (Some 3600500) (Some 2)]"
  have e: "candlestickData ?d
     = [\<lparr>time = 3600, open' = 2, high = 2, low = 2, close = 2\<rparr>,
        \<lparr>time = 7200, open' = 3, high = 3, low = 3, close = 3\<rparr>]"
    by (simp add: candle_defs)
  from candlestick_series [of ?d] have s: "sorted (map time (candlestickData ?d))"
    by blast
  have "distinct (map time (candlestickData ?d))"
    by (simp add: e)
  with candlestick_series [of ?d] have "sorted_wrt (<) (map time (candlestickData ?d))"
    by blast
  with e s show ?thesis by blast
qed

text \<open>
  The series is not always strictly time-ordered: two klines with the same open time
  (or two open times within one second) give two candles with the same time.
\<close>

theorem candlestick_not_strict_counterexample:
  "\<not> sorted_wrt (<) (map time (candlestickData
       [kl (Some 3600000) (Some 1), kl (Some 3600000) (Some 2)]))"
  by (simp add: candle_defs)


section \<open>Position sizing (decision engine)\<close>

text \<open>
  \<^verbatim>\<open>calculate_position_weight\<close> of the pullback entry strategy, as excerpted in
  \<^verbatim>\<open>src/services/decision_engine/IMPLEMENTATION_SUMMARY.md\<close> (the specification calls it
  \<open>size_position\<close>):
  \<^verbatim>\<open>
    if rule_engine_score >= settings.HIGH_CONFIDENCE_THRESHOLD:
        # High confidence: map 85-100 to 0.8-1.0
        ratio = (rule_engine_score - settings.HIGH_CONFIDENCE_THRESHOLD)
                / (100 - settings.HIGH_CONFIDENCE_THRESHOLD)
        weight = settings.HIGH_CONFIDENCE_WEIGHT_MIN + ratio * (
            settings.HIGH_CONFIDENCE_WEIGHT_MAX - settings.HIGH_CONFIDENCE_WEIGHT_MIN)
    elif rule_engine_score >= settings.MEDIUM_CONFIDENCE_THRESHOLD:
        # Medium confidence: map 70-85 to 0.5-0.7
        ...
    else:
        # Low confidence: map 0-70 to 0.3-0.5
        ...
    return weight
  \<close>
\<close>

text \<open>
  The settings object that the excerpt reads its thresholds and weight bounds from. The
  settings module is not among the repository's files and its values are configurable,
  so the function takes the settings as an argument. The names of the four medium and
  low weight bounds follow the pattern of the two high ones, which the excerpt names.
\<close>

record Settings =
  HIGH_CONFIDENCE_THRESHOLD :: real
  MEDIUM_CONFIDENCE_THRESHOLD :: real
  HIGH_CONFIDENCE_WEIGHT_MIN :: real
  HIGH_CONFIDENCE_WEIGHT_MAX :: real
  MEDIUM_CONFIDENCE_WEIGHT_MIN :: real
  MEDIUM_CONFIDENCE_WEIGHT_MAX :: real
  LOW_CONFIDENCE_WEIGHT_MIN :: real
  LOW_CONFIDENCE_WEIGHT_MAX :: real

text \<open>
  Modelled from the spec: the bodies of the medium and the low branch, which the only
  copy of the function elides (\<^verbatim>\<open>...\<close>). They are the linear maps of Section 4.2 of
  the specification (the middle tier onto its weight range, the scores from 0 to the
  medium threshold onto the low weight range), written in the form of the first branch.
  The chain of conditions and the body of the first branch are the excerpt's. Scores are
  reals: rounding of the floating-point arithmetic is not modelled.
\<close>

definition calculate_position_weight :: "Settings \<Rightarrow> real \<Rightarrow> real" where
  "calculate_position_weight settings rule_engine_score =
     (if rule_engine_score \<ge> HIGH_CONFIDENCE_THRESHOLD settings then
        let ratio = (rule_engine_score - HIGH_CONFIDENCE_THRESHOLD settings)
                      / (100 - HIGH_CONFIDENCE_THRESHOLD settings)
        in HIGH_CONFIDENCE_WEIGHT_MIN settings
             + ratio * (HIGH_CONFIDENCE_WEIGHT_MAX settings
                        - HIGH_CONFIDENCE_WEIGHT_MIN settings)
      else if rule_engine_score \<ge> MEDIUM_CONFIDENCE_THRESHOLD settings then
        let ratio = (rule_engine_score - MEDIUM_CONFIDENCE_THRESHOLD settings)
                      / (HIGH_CONFIDENCE_THRESHOLD settings
                         - MEDIUM_CONFIDENCE_THRESHOLD settings)
        in MEDIUM_CONFIDENCE_WEIGHT_MIN settings
             + ratio * (MEDIUM_CONFIDENCE_WEIGHT_MAX settings
                        - MEDIUM_CONFIDENCE_WEIGHT_MIN settings)
      else
        let ratio = rule_engine_score / MEDIUM_CONFIDENCE_THRESHOLD settings
        in LOW_CONFIDENCE_WEIGHT_MIN settings
             + ratio * (LOW_CONFIDENCE_WEIGHT_MAX settings
                        - LOW_CONFIDENCE_WEIGHT_MIN settings))"

text \<open>
  Modelled from the spec: the values of the settings, which no file of the repository
  holds. They are the tier bounds of Section 4.2 of the specification: thresholds 85
  and 70, weights 0.8 to 1.0, 0.5 to 0.7 and 0.3 to 0.5. The tier list above the excerpt
  and the excerpt's comments (\<^verbatim>\<open>map 85-100 to 0.8-1.0\<close>, \<^verbatim>\<open>map 70-85 to 0.5-0.7\<close>,
  \<^verbatim>\<open>map 0-70 to 0.3-0.5\<close>) document the same numbers.
\<close>

definition default_settings :: Settings where
  "default_settings =
     \<lparr>HIGH_CONFIDENCE_THRESHOLD = 85, MEDIUM_CONFIDENCE_THRESHOLD = 70,
      HIGH_CONFIDENCE_WEIGHT_MIN = 8 / 10, HIGH_CONFIDENCE_WEIGHT_MAX = 1,
      MEDIUM_CONFIDENCE_WEIGHT_MIN = 5 / 10, MEDIUM_CONFIDENCE_WEIGHT_MAX = 7 / 10,
      LOW_CONFIDENCE_WEIGHT_MIN = 3 / 10, LOW_CONFIDENCE_WEIGHT_MAX = 5 / 10\<rparr>"

text \<open>
  Modelled from the spec: \<open>size_position (final_score)\<close> of Section 4.2, the position
  weight under these settings.
\<close>

definition size_position :: "real \<Rightarrow> real" where
  "size_position final_score = calculate_position_weight default_settings final_score"

lemmas size_defs = size_position_def calculate_position_weight_def default_settings_def Let_def

lemma weight_high: "85 \<le> x \<Longrightarrow> size_position x = 4 / 5 + (x - 85) / 75"
  by (simp add: size_defs)

lemma weight_medium: "70 \<le> x \<Longrightarrow> x < 85 \<Longrightarrow> size_position x = 1 / 2 + (x - 70) / 75"
  by (simp add: size_defs)

lemma weight_low: "x < 70 \<Longrightarrow> size_position x = 3 / 10 + x / 350"
  by (simp add: size_defs)

lemma weight_strict_mono: "x < y \<Longrightarrow> size_position x < size_position y"
proof -
  assume xy: "x < y"
  consider "y < 70" | "x < 70" "70 \<le> y" "y < 85" | "x < 70" "85 \<le> y"
    | "70 \<le> x" "y < 85" | "70 \<le> x" "x < 85" "85 \<le> y" | "85 \<le> x"
    by linarith
  then show ?thesis
  proof cases
    case 1 with xy show ?thesis by (simp add: weight_low)
  next
    case 2 with xy show ?thesis by (simp add: weight_low weight_medium) (simp add: field_simps)
  next
    case 3 with xy show ?thesis by (simp add: weight_low weight_high) (simp add: field_simps)
  next
    case 4 with xy show ?thesis by (simp add: weight_medium)
  next
    case 5 with xy show ?thesis by (simp add: weight_medium weight_high) (simp add: field_simps)
  next
    case 6 with xy show ?thesis by (simp add: weight_high)
  qed
qed

lemma weight_below_85:
  "x < 85 \<Longrightarrow> size_position x = max (3 / 10 + x / 350) (1 / 2 + (x - 70) / 75)"
proof (cases "x < 70")
  case True
  then have "1 / 2 + (x - 70) / 75 \<le> 3 / 10 + x / 350" by (simp add: field_simps)
  with True show ?thesis by (simp add: weight_low max_def)
next
  case False
  then have "3 / 10 + x / 350 \<le> 1 / 2 + (x - 70) / 75" by (simp add: field_simps)
  moreover assume "x < 85"
  ultimately show ?thesis using False by (simp add: weight_medium max_def)
qed

lemma weight_cont_below: "continuous_on {..<85} size_position"
proof -
  have "continuous_on {..<85} (\<lambda>x::real. max (3 / 10 + x / 350) (1 / 2 + (x - 70) / 75))"
    by (intro continuous_intros) simp_all
  moreover have "continuous_on {..<85} size_position
      \<longleftrightarrow> continuous_on {..<85} (\<lambda>x::real. max (3 / 10 + x / 350) (1 / 2 + (x - 70) / 75))"
    by (rule continuous_on_cong) (simp_all add: weight_below_85)
  ultimately show ?thesis by simp
qed

lemma weight_cont_above: "continuous_on {85..} size_position"
proof -
  have "continuous_on {85..} (\<lambda>x::real. 4 / 5 + (x - 85) / 75)"
    by (intro continuous_intros) simp_all
  moreover have "continuous_on {85..} size_position
      \<longleftrightarrow> continuous_on {85..} (\<lambda>x::real. 4 / 5 + (x - 85) / 75)"
    by (rule continuous_on_cong) (simp_all add: weight_high)
  ultimately show ?thesis by simp
qed

lemma weight_isCont_70: "isCont size_position 70"
proof -
  have "open {..<(85::real)}" by simp
  moreover have "(70::real) \<in> {..<85}" by simp
  ultimately show ?thesis
    using weight_cont_below by (simp add: continuous_on_eq_continuous_at)
qed

lemma weight_left_limit_85:
  "(size_position \<longlongrightarrow> 7 / 10) (at_left 85)"
proof -
  have "((\<lambda>x::real. 1 / 2 + (x - 70) / 75) \<longlongrightarrow> 1 / 2 + (85 - 70) / 75) (at_left 85)"
    by (intro tendsto_intros) simp_all
  then have m: "((\<lambda>x::real. 1 / 2 + (x - 70) / 75) \<longlongrightarrow> 7 / 10) (at_left 85)"
    by simp
  have "eventually (\<lambda>x. 1 / 2 + (x - 70) / 75 = size_position x) (at_left 85)"
    unfolding eventually_at_left_field
    by (intro exI [of _ 70]) (simp add: weight_medium)
  with m show ?thesis by (rule Lim_transform_eventually)
qed

lemma weight_jump_85: "\<not> isCont size_position 85"
proof
  assume "isCont size_position 85"
  then have "(size_position \<longlongrightarrow> size_position 85) (at_left 85)"
    by (simp add: isCont_def filterlim_at_split)
  then have "(size_position \<longlongrightarrow> 4 / 5) (at_left 85)"
    by (simp add: weight_high)
  with weight_left_limit_85 have "(7 / 10 :: real) = 4 / 5"
    by (intro tendsto_unique [OF _ weight_left_limit_85]) simp_all
  then show False by simp
qed

lemma image_high: "size_position ` {85..100} = {4 / 5..1}"
proof (rule set_eqI, rule iffI)
  fix y assume "y \<in> size_position ` {85..100}"
  then obtain x where "85 \<le> x" "x \<le> 100" "y = size_position x" by auto
  then show "y \<in> {4 / 5..1}" by (simp add: weight_high field_simps)
next
  fix y :: real assume y: "y \<in> {4 / 5..1}"
  then have "85 \<le> 85 + 75 * (y - 4 / 5)" "85 + 75 * (y - 4 / 5) \<le> 100" by simp_all
  moreover from this have "size_position (85 + 75 * (y - 4 / 5)) = y"
    by (simp add: weight_high field_simps)
  ultimately show "y \<in> size_position ` {85..100}"
    by (intro image_eqI [of _ _ "85 + 75 * (y - 4 / 5)"]) simp_all
qed

lemma image_medium: "size_position ` {70..<85} = {1 / 2..<7 / 10}"
proof (rule set_eqI, rule iffI)
  fix y assume "y \<in> size_position ` {70..<85}"
  then obtain x where "70 \<le> x" "x < 85" "y = size_position x" by auto
  then show "y \<in> {1 / 2..<7 / 10}" by (simp add: weight_medium field_simps)
next
  fix y :: real assume y: "y \<in> {1 / 2..<7 / 10}"
  then have "70 \<le> 70 + 75 * (y - 1 / 2)" "70 + 75 * (y - 1 / 2) < 85" by simp_all
  moreover from this have "size_position (70 + 75 * (y - 1 / 2)) = y"
    by (simp add: weight_medium field_simps)
  ultimately show "y \<in> size_position ` {70..<85}"
    by (intro image_eqI [of _ _ "70 + 75 * (y - 1 / 2)"]) simp_all
qed

lemma image_low: "size_position ` {0..<70} = {3 / 10..<1 / 2}"
proof (rule set_eqI, rule iffI)
  fix y assume "y \<in> size_position ` {0..<70}"
  then obtain x where "0 \<le> x" "x < 70" "y = size_position x" by auto
  then show "y \<in> {3 / 10..<1 / 2}" by (simp add: weight_low field_simps)
next
  fix y :: real assume y: "y \<in> {3 / 10..<1 / 2}"
  then have "0 \<le> 350 * (y - 3 / 10)" "350 * (y - 3 / 10) < 70" by simp_all
  moreover from this have "size_position (350 * (y - 3 / 10)) = y"
    by (simp add: weight_low field_simps)
  ultimately show "y \<in> size_position ` {0..<70}"
    by (intro image_eqI [of _ _ "350 * (y - 3 / 10)"]) simp_all
qed

text \<open>
  Claim C1 (as amended). \<open>size_position\<close> maps the score tier-wise: [85,100] linearly
  onto [0.8,1.0], [70,85) linearly onto [0.5,0.7), [0,70) linearly onto [0.3,0.5). The
  function is strictly monotonic on the whole domain and continuous on [0,85), in
  particular at the tier boundary 70, and on [85,100]. At the boundary 85 it jumps: the
  left limit is 0.7 and the value is 0.8.
\<close>

theorem position_weight_tiers:
  "(\<forall>x \<ge> 85. size_position x = 4 / 5 + (x - 85) / (100 - 85) * (1 - 4 / 5))
   \<and> (\<forall>x. 70 \<le> x \<and> x < 85 \<longrightarrow>
         size_position x = 1 / 2 + (x - 70) / (85 - 70) * (7 / 10 - 1 / 2))
   \<and> (\<forall>x < 70. size_position x = 3 / 10 + x / 70 * (1 / 2 - 3 / 10))
   \<and> size_position ` {85..100} = {4 / 5..1}
   \<and> size_position ` {70..<85} = {1 / 2..<7 / 10}
   \<and> size_position ` {0..<70} = {3 / 10..<1 / 2}
   \<and> strict_mono size_position
   \<and> continuous_on {0..<85} size_position
   \<and> continuous_on {85..100} size_position
   \<and> isCont size_position 70
   \<and> (size_position \<longlongrightarrow> 7 / 10) (at_left 85)
   \<and> size_position 85 = 4 / 5"
proof -
  have "continuous_on {0..<85} size_position"
    by (rule continuous_on_subset [OF weight_cont_below]) auto
  moreover have "continuous_on {85..100} size_position"
    by (rule continuous_on_subset [OF weight_cont_above]) auto
  moreover have "strict_mono size_position"
    by (simp add: strict_mono_def weight_strict_mono)
  ultimately show ?thesis
    using image_high image_medium image_low weight_isCont_70 weight_left_limit_85
    by (simp add: weight_high weight_medium weight_low)
qed

text \<open>One score in each tier, and the order of the weights across the boundary 85.\<close>

theorem position_weight_tiers_witness:
  "size_position 100 = 1
   \<and> size_position 80 = 19 / 30
   \<and> size_position 35 = 2 / 5
   \<and> size_position 84 < size_position 85
   \<and> size_position 85 = 4 / 5"
proof -
  note t = position_weight_tiers
  from t have "strict_mono size_position" by blast
  then have "size_position 84 < size_position 85"
    by (simp add: strict_mono_def)
  moreover from t have "size_position 100 = 1" by simp
  moreover from t have "size_position 80 = 19 / 30" by simp
  moreover from t have "size_position 35 = 2 / 5" by simp
  moreover from t have "size_position 85 = 4 / 5" by blast
  ultimately show ?thesis by blast
qed

text \<open>
  The function is not continuous at 85, and its left limit there is not its value.
\<close>

theorem position_weight_jump_counterexample:
  "\<not> isCont size_position 85
   \<and> \<not> (size_position \<longlongrightarrow> size_position 85) (at_left 85)"
proof -
  have "\<not> (size_position \<longlongrightarrow> size_position 85) (at_left 85)"
  proof
    assume "(size_position \<longlongrightarrow> size_position 85) (at_left 85)"
    then have "(size_position \<longlongrightarrow> 4 / 5) (at_left 85)"
      by (simp add: weight_high)
    then have "(7 / 10 :: real) = 4 / 5"
      by (intro tendsto_unique [OF _ weight_left_limit_85]) simp_all
    then show False by simp
  qed
  with weight_jump_85 show ?thesis by simp
qed

section \<open>Decision arbiter\<close>

text \<open>
  Modelled from the spec: the data model of the arbiter (Section 3). The decision
  engine's Python code is not among the repository's files; the records below hold the
  fields that Section 3 lists for \<open>ArbitrationConfig\<close> and \<open>ScoreSet\<close>. Scores and weights
  are reals: the rounding of double-precision arithmetic is not modelled.
\<close>

datatype SentimentLabel = BULLISH | BEARISH | NEUTRAL

datatype Decision = APPROVED | REJECTED

datatype Component = RULE_ENGINE | ML_MODEL | LLM_SENTIMENT

datatype error = ConfigurationError | DataUnavailableError

record ArbitrationConfig =
  config_id :: string
  version :: nat
  weight_rule :: real
  weight_ml :: real
  weight_llm :: real
  min_approval_score :: real
  adaptive_threshold_enabled :: bool
  is_active :: bool

record ScoreSet =
  rule_score :: real
  ml_score :: "real option"
  sentiment_label :: "SentimentLabel option"
  sentiment_confidence :: "real option"

type_synonym AgreementRecord = "(Component \<times> Component \<times> bool) list"

text \<open>
  Modelled from the spec: the tolerance of the weight invariant, "sum to 1.0 +- 1e-6".
\<close>

definition WEIGHT_TOLERANCE :: real where
  "WEIGHT_TOLERANCE = 1 / 1000000"

text \<open>
  Modelled from the spec: the neutral fallback value 50.0 of Section 4.1;
  \<^verbatim>\<open>src/services/decision_engine/docs/MODEL_DEGRADATION_STRATEGY.md\<close> documents the
  same default for \<^verbatim>\<open>ML_FALLBACK_SCORE\<close>.
\<close>

definition ML_FALLBACK_SCORE :: real where
  "ML_FALLBACK_SCORE = 50"

definition SENTIMENT_FALLBACK_SCORE :: real where
  "SENTIMENT_FALLBACK_SCORE = 50"

text \<open>
  Modelled from the spec: the weight invariant, and the constructor of a configuration,
  which fails with \<open>ConfigurationError\<close> outside the tolerance and otherwise stores the
  weights as given.
\<close>

definition weights_valid :: "real \<Rightarrow> real \<Rightarrow> real \<Rightarrow> bool" where
  "weights_valid wr wm wl \<longleftrightarrow> \<bar>wr + wm + wl - 1\<bar> \<le> WEIGHT_TOLERANCE"

definition new_config ::
  "string \<Rightarrow> nat \<Rightarrow> real \<Rightarrow> real \<Rightarrow> real \<Rightarrow> real \<Rightarrow> bool \<Rightarrow> error + ArbitrationConfig" where
  "new_config cid ver wr wm wl mas adaptive =
     (if weights_valid wr wm wl
      then Inr \<lparr>config_id = cid, version = ver, weight_rule = wr, weight_ml = wm,
                weight_llm = wl, min_approval_score = mas,
                adaptive_threshold_enabled = adaptive, is_active = True\<rparr>
      else Inl ConfigurationError)"

text \<open>
  Modelled from the spec: score normalisation (BULLISH to 50 + 50 * confidence, BEARISH
  to 50 - 50 * confidence, NEUTRAL to 50). The sentiment is available when both its
  label and its confidence are.
\<close>

fun sentiment_to_score :: "SentimentLabel \<Rightarrow> real \<Rightarrow> real" where
  "sentiment_to_score BULLISH c = 50 + 50 * c"
| "sentiment_to_score BEARISH c = 50 - 50 * c"
| "sentiment_to_score NEUTRAL c = 50"

definition sentiment_score :: "ScoreSet \<Rightarrow> real option" where
  "sentiment_score s =
     (case sentiment_label s of
        None \<Rightarrow> None
      | Some l \<Rightarrow> (case sentiment_confidence s of
                    None \<Rightarrow> None
                  | Some c \<Rightarrow> Some (sentiment_to_score l c)))"

text \<open>
  Modelled from the spec: substitution of a missing input by the fallback value, and the
  fusion \<open>weight_rule * rule + weight_ml * ml + weight_llm * sentiment\<close>, clamped to
  [0,100]. The weights are used as configured, whatever is missing.
\<close>

definition or_fallback :: "real option \<Rightarrow> real \<Rightarrow> real" where
  "or_fallback v d = (case v of None \<Rightarrow> d | Some x \<Rightarrow> x)"

definition clamp :: "real \<Rightarrow> real \<Rightarrow> real \<Rightarrow> real" where
  "clamp lo hi x = max lo (min hi x)"

definition fuse :: "ScoreSet \<Rightarrow> ArbitrationConfig \<Rightarrow> real" where
  "fuse s cfg =
     clamp 0 100
       (weight_rule cfg * rule_score s
        + weight_ml cfg * or_fallback (ml_score s) ML_FALLBACK_SCORE
        + weight_llm cfg * or_fallback (sentiment_score s) SENTIMENT_FALLBACK_SCORE)"

text \<open>
  Modelled from the spec: the threshold. The correction that the adaptive threshold
  derives from the rolling approval rate is a tunable that the specification leaves
  open, so it is an argument here; the effective threshold stays in [0,100].
\<close>

definition effective_threshold :: "ArbitrationConfig \<Rightarrow> real \<Rightarrow> real" where
  "effective_threshold cfg correction =
     (if adaptive_threshold_enabled cfg
      then clamp 0 100 (min_approval_score cfg + correction)
      else min_approval_score cfg)"

definition decide :: "real \<Rightarrow> real \<Rightarrow> Decision" where
  "decide final_score threshold = (if final_score \<ge> threshold then APPROVED else REJECTED)"

text \<open>
  Modelled from the spec: the agreement record, one entry for each ordered pair of
  available components, telling whether both lie on the same side of 50.
\<close>

definition side :: "real \<Rightarrow> int" where
  "side x = (if x > 50 then 1 else if x < 50 then - 1 else 0)"

definition available :: "ScoreSet \<Rightarrow> (Component \<times> real) list" where
  "available s =
     [(RULE_ENGINE, rule_score s)]
     @ (case ml_score s of None \<Rightarrow> [] | Some m \<Rightarrow> [(ML_MODEL, m)])
     @ (case sentiment_score s of None \<Rightarrow> [] | Some v \<Rightarrow> [(LLM_SENTIMENT, v)])"

definition agreement :: "ScoreSet \<Rightarrow> AgreementRecord" where
  "agreement s =
     concat (map (\<lambda>(a, x).
        map (\<lambda>(b, y). (a, b, side x = side y))
            (filter (\<lambda>(b, y). b \<noteq> a) (available s)))
        (available s))"

text \<open>
  Modelled from the spec: \<open>arbitrate (scores, config)\<close> of Section 4.1. It fails only
  when the weights of the configuration do not sum to 1.0 within the tolerance.
\<close>

definition arbitrate ::
  "ScoreSet \<Rightarrow> ArbitrationConfig \<Rightarrow> real \<Rightarrow> error + (real \<times> Decision \<times> AgreementRecord)" where
  "arbitrate scores config correction =
     (if \<not> weights_valid (weight_rule config) (weight_ml config) (weight_llm config)
      then Inl ConfigurationError
      else let final_score = fuse scores config
           in Inr (final_score,
                   decide final_score (effective_threshold config correction),
                   agreement scores))"

text \<open>A score set with the rule score only, and a configuration with given weights.\<close>

definition rule_only :: "real \<Rightarrow> ScoreSet" where
  "rule_only r = \<lparr>rule_score = r, ml_score = None, sentiment_label = None,
                  sentiment_confidence = None\<rparr>"

definition config_of :: "real \<Rightarrow> real \<Rightarrow> real \<Rightarrow> real \<Rightarrow> ArbitrationConfig" where
  "config_of wr wm wl mas =
     \<lparr>config_id = ''cfg'', version = 1, weight_rule = wr, weight_ml = wm, weight_llm = wl,
      min_approval_score = mas, adaptive_threshold_enabled = False, is_active = True\<rparr>"

text \<open>
  Claim C3. Constructing an \<open>ArbitrationConfig\<close> whose weights sum differs from 1.0 by
  more than 1e-6 fails with \<open>ConfigurationError\<close>; within the tolerance the construction
  succeeds and keeps the weights as given (nothing is corrected silently). \<open>arbitrate\<close>
  raises exactly when the weights of its configuration are outside the tolerance, and
  then it raises \<open>ConfigurationError\<close>: whatever component scores are missing, it returns
  a result for a valid configuration.
\<close>

theorem config_error_iff:
  "(new_config cid ver wr wm wl mas adaptive = Inl ConfigurationError
      \<longleftrightarrow> \<bar>wr + wm + wl - 1\<bar> > 1 / 1000000)
   \<and> (\<bar>wr + wm + wl - 1\<bar> \<le> 1 / 1000000 \<longrightarrow>
        (\<exists>c. new_config cid ver wr wm wl mas adaptive = Inr c
           \<and> weight_rule c = wr \<and> weight_ml c = wm \<and> weight_llm c = wl))
   \<and> (arbitrate s cfg corr = Inl e
      \<longleftrightarrow> e = ConfigurationError
          \<and> \<bar>weight_rule cfg + weight_ml cfg + weight_llm cfg - 1\<bar> > 1 / 1000000)
   \<and> (\<bar>weight_rule cfg + weight_ml cfg + weight_llm cfg - 1\<bar> \<le> 1 / 1000000 \<longrightarrow>
        (\<exists>r. arbitrate s cfg corr = Inr r))"
  by (auto simp: new_config_def arbitrate_def weights_valid_def WEIGHT_TOLERANCE_def Let_def)

text \<open>
  Weights 0.5, 0.3, 0.3 are refused by the constructor and by \<open>arbitrate\<close>; with the
  weights 0.4, 0.3, 0.3 a rule-only score set is arbitrated.
\<close>

theorem config_error_iff_witness:
  "new_config ''c1'' 1 (5 / 10) (3 / 10) (3 / 10) 60 False = Inl ConfigurationError
   \<and> arbitrate (rule_only 80) (config_of (5 / 10) (3 / 10) (3 / 10) 60) 0
       = Inl ConfigurationError
   \<and> (\<exists>r. arbitrate (rule_only 80) (config_of (4 / 10) (3 / 10) (3 / 10) 60) 0 = Inr r)"
proof -
  have a: "new_config ''c1'' 1 (5 / 10) (3 / 10) (3 / 10) 60 False = Inl ConfigurationError"
    using config_error_iff [of "''c1''" 1 "5 / 10" "3 / 10" "3 / 10" 60 False] by simp
  have b: "arbitrate (rule_only 80) (config_of (5 / 10) (3 / 10) (3 / 10) 60) 0
       = Inl ConfigurationError"
    using config_error_iff [of _ _ _ _ _ _ _ "rule_only 80"
        "config_of (5 / 10) (3 / 10) (3 / 10) 60" 0 ConfigurationError]
    by (simp add: config_of_def)
  have c: "\<exists>r. arbitrate (rule_only 80) (config_of (4 / 10) (3 / 10) (3 / 10) 60) 0 = Inr r"
    using config_error_iff [of _ _ _ _ _ _ _ "rule_only 80"
        "config_of (4 / 10) (3 / 10) (3 / 10) 60" 0]
    by (simp add: config_of_def)
  from a b c show ?thesis by blast
qed

section \<open>Documented baseline metrics\<close>

text \<open>
  Modelled from the spec: three formulas of the metrics calculator (Section 4.4), whose
  code is not among the repository's files: \<open>ROI = (final - initial) / initial\<close>;
  \<open>win_rate = winning_trades / total_trades\<close>, and 0 when there are no trades;
  \<open>profit_factor\<close> is the sum of the wins over the absolute sum of the losses, with
  \<open>None\<close> as the sentinel when there are no losses.
\<close>

definition roi :: "real \<Rightarrow> real \<Rightarrow> real" where
  "roi initial_balance final_balance = (final_balance - initial_balance) / initial_balance"

definition win_rate :: "nat \<Rightarrow> nat \<Rightarrow> real" where
  "win_rate winning_trades total_trades =
     (if total_trades = 0 then 0 else real winning_trades / real total_trades)"

definition profit_factor :: "real \<Rightarrow> real \<Rightarrow> real option" where
  "profit_factor sum_wins sum_losses =
     (if sum_losses = 0 then None else Some (sum_wins / \<bar>sum_losses\<bar>))"

text \<open>A value lies within a relative tolerance of the expected one.\<close>

definition within_tolerance :: "real \<Rightarrow> real \<Rightarrow> real \<Rightarrow> bool" where
  "within_tolerance tol expected actual \<longleftrightarrow> \<bar>actual - expected\<bar> \<le> tol * \<bar>expected\<bar>"

text \<open>
  The baseline table of the repository's documentation (initial balance 100000.00, final
  balance 98961.65, 5 winning trades out of 15, wins of 11560.65 against losses of
  12599.00) agrees with its reported ROI -0.0104, win rate 0.3333 and profit factor
  0.9176 within 1 percent under these formulas. What a run of the engine on the market
  data of January 2024 yields is outside this development: neither the data nor the
  engine is part of the files.
\<close>

lemma baseline_metrics_consistent:
  "within_tolerance (1 / 100) (- 104 / 10000) (roi 100000 (9896165 / 100))
   \<and> within_tolerance (1 / 100) (3333 / 10000) (win_rate 5 15)
   \<and> profit_factor (1156065 / 100) (- 12599) = Some (1156065 / 1259900)
   \<and> within_tolerance (1 / 100) (9176 / 10000) (1156065 / 1259900)"
  by (simp add: within_tolerance_def roi_def win_rate_def profit_factor_def)

end
